theory Spec2Isabelle
  imports Complex_Main "HOL-Library.Log_Nat"
begin

section \<open>JavaScript values\<close>

text \<open>
  A JavaScript \<open>number\<close> is modelled as an exact real, extended with the three
  special values that a division by zero produces. Rounding, overflow and the sign of
  zero are not modelled: a zero divisor counts as \<open>+0\<close>. Statements about the exact
  value that the walk leaves in a variable depend on rounding; for those the walk is
  given a second time, in binary64 arithmetic, further down.
\<close>

datatype jsnum = Fin real | PInf | NInf | NaN

text \<open>Arithmetic with a finite right operand, as the simulator uses it.\<close>

fun divide_js :: "jsnum \<Rightarrow> real \<Rightarrow> jsnum" where
  "divide_js (Fin a) b =
     (if b \<noteq> 0 then Fin (a / b)
      else if a = 0 then NaN
      else if a > 0 then PInf else NInf)"
| "divide_js PInf b = (if b \<ge> 0 then PInf else NInf)"
| "divide_js NInf b = (if b \<ge> 0 then NInf else PInf)"
| "divide_js NaN b = NaN"

fun times_js :: "jsnum \<Rightarrow> real \<Rightarrow> jsnum" where
  "times_js (Fin a) b = Fin (a * b)"
| "times_js PInf b = (if b > 0 then PInf else if b < 0 then NInf else NaN)"
| "times_js NInf b = (if b > 0 then NInf else if b < 0 then PInf else NaN)"
| "times_js NaN b = NaN"

fun minus_js :: "jsnum \<Rightarrow> real \<Rightarrow> jsnum" where
  "minus_js (Fin a) b = Fin (a - b)"
| "minus_js PInf b = PInf"
| "minus_js NInf b = NInf"
| "minus_js NaN b = NaN"

fun abs_js :: "jsnum \<Rightarrow> jsnum" where
  "abs_js (Fin a) = Fin \<bar>a\<bar>"
| "abs_js PInf = PInf"
| "abs_js NInf = PInf"
| "abs_js NaN = NaN"

text \<open>
  A value as \<open>JSON.parse\<close> delivers it (\<open>data: any\<close>), together with \<open>undefined\<close>,
  which a read of an absent property yields. An object is its list of own properties.
\<close>

datatype json =
    JUndefined
  | JNull
  | JBool bool
  | JNum jsnum
  | JStr string
  | JArr "json list"
  | JObj "(string \<times> json) list"

datatype exn = TypeError | SyntaxError

section \<open>Data model (app/types/orderbook.ts)\<close>

datatype Venue = OKX | Bybit | Deribit

datatype Side = Buy | Sell

datatype OrderType = Market | Limit

datatype Timing = Immediate | After5s | After10s | After30s

text \<open>
  The state of the simulation form that \<open>calculateMarketImpact\<close> closes over. \<open>price\<close>
  and \<open>quantity\<close> hold the text of the two numeric inputs.
\<close>

record FormState =
  orderType :: OrderType
  side :: Side
  price :: string
  quantity :: string
  timing :: Timing

text \<open>
  TypeScript types are erased at run time. The levels that the normalizer builds carry
  whatever values the message held (\<open>'n = json\<close>); the simulator is typed to receive
  numbers, taken to be finite (\<open>'n = real\<close>, and \<open>'n = rat\<close> where they are binary64 values).
\<close>

record 'n OrderbookLevel =
  price :: 'n
  quantity :: 'n
  total :: "'n option"

record 'n OrderbookData =
  bids :: "'n OrderbookLevel list"
  asks :: "'n OrderbookLevel list"
  timestamp :: json
  symbol :: json
  venue :: Venue

text \<open>
  The variables of the walk, once holding binary64 values (each given as the rational it
  denotes) and once holding exact reals.
\<close>

record LoopVars64 =
  remainingQuantity :: rat
  totalCost :: rat
  totalQuantityFilled :: rat
  worstPrice :: rat

record LoopVars =
  remainingQuantity :: real
  totalCost :: real
  totalQuantityFilled :: real
  worstPrice :: real

record MarketImpactMetrics =
  estimatedFill :: jsnum
  marketImpact :: jsnum
  slippage :: jsnum
  averagePrice :: jsnum
  worstPrice :: jsnum

section \<open>Execution simulator (InteractiveOrderSimulationForm.tsx, calculateMarketImpact)\<close>

definition zeroMetrics :: MarketImpactMetrics where
  "zeroMetrics =
     \<lparr>estimatedFill = Fin 0, marketImpact = Fin 0, slippage = Fin 0,
      averagePrice = Fin 0, worstPrice = Fin 0\<rparr>"

text \<open>\<open>side === "buy" ? orderbookData.asks : orderbookData.bids\<close>\<close>

definition opposingLevels :: "Side \<Rightarrow> real OrderbookData \<Rightarrow> real OrderbookLevel list" where
  "opposingLevels s ob = (if s = Buy then asks ob else bids ob)"

definition initialVars :: "real \<Rightarrow> LoopVars" where
  "initialVars orderQuantity =
     \<lparr>remainingQuantity = orderQuantity, totalCost = 0, totalQuantityFilled = 0,
      LoopVars.worstPrice = 0\<rparr>"

text \<open>The \<open>for (const level of levels)\<close> loop; the first equation of the body is the \<open>break\<close>.\<close>

fun walkLevels :: "real OrderbookLevel list \<Rightarrow> LoopVars \<Rightarrow> LoopVars" where
  "walkLevels [] s = s"
| "walkLevels (level # rest) s =
     (if remainingQuantity s \<le> 0 then s
      else
        let quantityAtLevel = min (remainingQuantity s) (quantity level)
        in walkLevels rest
             \<lparr>remainingQuantity = remainingQuantity s - quantityAtLevel,
              totalCost = totalCost s + quantityAtLevel * price level,
              totalQuantityFilled = totalQuantityFilled s + quantityAtLevel,
              LoopVars.worstPrice = price level\<rparr>)"

text \<open>\<open>levels[0]?.price || 0\<close>\<close>

fun bestPriceOf :: "real OrderbookLevel list \<Rightarrow> real" where
  "bestPriceOf [] = 0"
| "bestPriceOf (level # rest) = (if price level = 0 then 0 else price level)"

text \<open>\<open>levels.reduce((sum, level) => sum + level.quantity, 0)\<close>\<close>

definition sumQuantity :: "real OrderbookLevel list \<Rightarrow> real" where
  "sumQuantity levels = foldl (\<lambda>sum level. sum + quantity level) 0 levels"

text \<open>
  \<open>parseFloat\<close> stands for \<open>Number.parseFloat\<close> on the text of the quantity input, an
  \<open><input type="number">\<close> whose non-empty value is a finite decimal.
\<close>

definition calculateMarketImpact ::
  "(string \<Rightarrow> real) \<Rightarrow> real OrderbookData option \<Rightarrow> FormState \<Rightarrow> MarketImpactMetrics" where
  "calculateMarketImpact parseFloat orderbookData form =
     (case orderbookData of
        None \<Rightarrow> zeroMetrics
      | Some ob \<Rightarrow>
          if FormState.quantity form = [] then zeroMetrics
          else
            let orderQuantity = parseFloat (FormState.quantity form);
                levels = opposingLevels (side form) ob;
                w = walkLevels levels (initialVars orderQuantity);
                estimatedFill' =
                  times_js (divide_js (Fin (totalQuantityFilled w)) orderQuantity) 100;
                averagePrice' =
                  (if totalQuantityFilled w > 0
                   then divide_js (Fin (totalCost w)) (totalQuantityFilled w) else Fin 0);
                bestPrice = bestPriceOf levels;
                slippage' =
                  (if bestPrice > 0
                   then times_js (abs_js (divide_js (minus_js averagePrice' bestPrice) bestPrice)) 100
                   else Fin 0);
                marketImpact' =
                  (if length levels > 0
                   then times_js (divide_js (Fin (totalQuantityFilled w)) (sumQuantity levels)) 100
                   else Fin 0)
            in \<lparr>estimatedFill = estimatedFill', marketImpact = marketImpact',
                slippage = slippage', averagePrice = averagePrice',
                worstPrice = Fin (LoopVars.worstPrice w)\<rparr>)"

text \<open>
  The divisors of the divisions that \<open>calculateMarketImpact\<close> evaluates past its first
  guard, in the order of the source: \<open>orderQuantity\<close> always, the other three only when
  their ternary takes the dividing branch.
\<close>

definition divisorsUsed ::
  "(string \<Rightarrow> real) \<Rightarrow> real OrderbookData \<Rightarrow> FormState \<Rightarrow> real list" where
  "divisorsUsed parseFloat ob form =
     (let orderQuantity = parseFloat (FormState.quantity form);
          levels = opposingLevels (side form) ob;
          w = walkLevels levels (initialVars orderQuantity)
      in [orderQuantity]
         @ (if totalQuantityFilled w > 0 then [totalQuantityFilled w] else [])
         @ (if bestPriceOf levels > 0 then [bestPriceOf levels] else [])
         @ (if length levels > 0 then [sumQuantity levels] else []))"

section \<open>The walk of the simulator in binary64 arithmetic\<close>

text \<open>
  A JavaScript \<open>number\<close> is an IEEE 754 binary64 value, and every arithmetic operation
  returns the binary64 value nearest to the exact result, a tie going to the value with
  the even significand. A finite binary64 value is modelled as the rational number it
  denotes, and an operation as the exact operation followed by \<open>round64\<close>. Results of
  magnitude below \<open>2^-1022\<close> (subnormal) or from \<open>2^1024\<close> on (overflow) are outside the
  model.
\<close>









section \<open>Normalizer (useOrderbookData, parseOrderbookData)\<close>

text \<open>
  Evaluation either yields a value or throws; \<open>andThen\<close> sequences two steps and
  lets the first exception through.
\<close>

definition andThen :: "exn + 'a \<Rightarrow> ('a \<Rightarrow> exn + 'b) \<Rightarrow> exn + 'b" where
  "andThen m f = (case m of Inl e \<Rightarrow> Inl e | Inr x \<Rightarrow> f x)"

text \<open>Truthiness, as \<open>if (x)\<close> and \<open>x && y\<close> test it.\<close>

fun truthy :: "json \<Rightarrow> bool" where
  "truthy JUndefined = False"
| "truthy JNull = False"
| "truthy (JBool b) = b"
| "truthy (JNum n) = (n \<noteq> Fin 0 \<and> n \<noteq> NaN)"
| "truthy (JStr s) = (s \<noteq> [])"
| "truthy (JArr xs) = True"
| "truthy (JObj kvs) = True"

text \<open>
  The property read \<open>x.k\<close> for the names this program reads (\<open>data\<close>, \<open>bids\<close>, \<open>asks\<close>,
  \<open>b\<close>, \<open>a\<close>, \<open>s\<close>, \<open>ts\<close>, \<open>instId\<close>, \<open>params\<close>, \<open>timestamp\<close>, \<open>instrument_name\<close>): none of
  them is a property of a prototype, so only an object can hold one. Reading from
  \<open>undefined\<close> or \<open>null\<close> throws.
\<close>

fun getProp :: "json \<Rightarrow> string \<Rightarrow> exn + json" where
  "getProp JUndefined k = Inl TypeError"
| "getProp JNull k = Inl TypeError"
| "getProp (JObj kvs) k = Inr (case map_of kvs k of None \<Rightarrow> JUndefined | Some v \<Rightarrow> v)"
| "getProp (JBool b) k = Inr JUndefined"
| "getProp (JNum n) k = Inr JUndefined"
| "getProp (JStr s) k = Inr JUndefined"
| "getProp (JArr xs) k = Inr JUndefined"

text \<open>The indexed read \<open>x[0]\<close>.\<close>

fun getIndex0 :: "json \<Rightarrow> exn + json" where
  "getIndex0 JUndefined = Inl TypeError"
| "getIndex0 JNull = Inl TypeError"
| "getIndex0 (JArr xs) = Inr (case xs of [] \<Rightarrow> JUndefined | x # rest \<Rightarrow> x)"
| "getIndex0 (JStr s) = Inr (case s of [] \<Rightarrow> JUndefined | c # rest \<Rightarrow> JStr [c])"
| "getIndex0 (JObj kvs) = Inr (case map_of kvs ''0'' of None \<Rightarrow> JUndefined | Some v \<Rightarrow> v)"
| "getIndex0 (JBool b) = Inr JUndefined"
| "getIndex0 (JNum n) = Inr JUndefined"

text \<open>
  The parameter pattern \<open>[price, quantity]\<close>: the argument must be iterable (an array,
  or a string, which yields its characters); anything else throws. Missing elements are
  \<open>undefined\<close>.
\<close>

fun destructurePair :: "json \<Rightarrow> exn + json \<times> json" where
  "destructurePair (JArr xs) =
     Inr (case xs of
            [] \<Rightarrow> (JUndefined, JUndefined)
          | [x] \<Rightarrow> (x, JUndefined)
          | x # y # rest \<Rightarrow> (x, y))"
| "destructurePair (JStr s) =
     Inr (case s of
            [] \<Rightarrow> (JUndefined, JUndefined)
          | [c] \<Rightarrow> (JStr [c], JUndefined)
          | c # d # rest \<Rightarrow> (JStr [c], JStr [d]))"
| "destructurePair JUndefined = Inl TypeError"
| "destructurePair JNull = Inl TypeError"
| "destructurePair (JBool b) = Inl TypeError"
| "destructurePair (JNum n) = Inl TypeError"
| "destructurePair (JObj kvs) = Inl TypeError"

text \<open>
  \<open>x.map(f)\<close>: only an array has \<open>map\<close>; the callback runs on every element, in order,
  and the first exception ends the call.
\<close>

fun mapThrowing :: "('a \<Rightarrow> exn + 'b) \<Rightarrow> 'a list \<Rightarrow> exn + 'b list" where
  "mapThrowing f [] = Inr []"
| "mapThrowing f (x # xs) =
     (case f x of
        Inl e \<Rightarrow> Inl e
      | Inr y \<Rightarrow> (case mapThrowing f xs of Inl e \<Rightarrow> Inl e | Inr ys \<Rightarrow> Inr (y # ys)))"

fun arrayMap :: "json \<Rightarrow> (json \<Rightarrow> exn + 'b) \<Rightarrow> exn + 'b list" where
  "arrayMap (JArr xs) f = mapThrowing f xs"
| "arrayMap JUndefined f = Inl TypeError"
| "arrayMap JNull f = Inl TypeError"
| "arrayMap (JBool b) f = Inl TypeError"
| "arrayMap (JNum n) f = Inl TypeError"
| "arrayMap (JStr s) f = Inl TypeError"
| "arrayMap (JObj kvs) f = Inl TypeError"

text \<open>
  The two callbacks. \<open>parseFloat\<close> and \<open>parseInt\<close> stand for \<open>Number.parseFloat\<close> and
  \<open>Number.parseInt\<close>, which accept any value and return a number, possibly \<open>NaN\<close>.
\<close>

definition parsedLevel :: "(json \<Rightarrow> jsnum) \<Rightarrow> json \<Rightarrow> exn + json OrderbookLevel" where
  "parsedLevel parseFloat entry =
     andThen (destructurePair entry) (\<lambda>(p, q).
       Inr \<lparr>price = JNum (parseFloat p), quantity = JNum (parseFloat q), total = None\<rparr>)"

definition plainLevel :: "json \<Rightarrow> exn + json OrderbookLevel" where
  "plainLevel entry =
     andThen (destructurePair entry) (\<lambda>(p, q).
       Inr \<lparr>price = p, quantity = q, total = None\<rparr>)"

text \<open>\<open>x.map(f).slice(0, 15)\<close>\<close>

definition mapSlice :: "json \<Rightarrow> (json \<Rightarrow> exn + 'b) \<Rightarrow> exn + 'b list" where
  "mapSlice x f = andThen (arrayMap x f) (\<lambda>levels. Inr (take 15 levels))"

text \<open>The body of the \<open>try\<close> block; \<open>Inr None\<close> is \<open>return null\<close> after a \<open>break\<close>.\<close>

fun parseOrderbookData_try ::
  "(json \<Rightarrow> jsnum) \<Rightarrow> (json \<Rightarrow> jsnum) \<Rightarrow> Venue \<Rightarrow> json \<Rightarrow> exn + json OrderbookData option" where
  "parseOrderbookData_try parseFloat parseInt OKX data =
     andThen (getProp data ''data'') (\<lambda>d.
       if \<not> truthy d then Inr None
       else andThen (getIndex0 d) (\<lambda>book.
         if \<not> truthy book then Inr None
         else
           andThen (getProp book ''bids'') (\<lambda>rawBids.
           andThen (mapSlice rawBids (parsedLevel parseFloat)) (\<lambda>bids'.
           andThen (getProp book ''asks'') (\<lambda>rawAsks.
           andThen (mapSlice rawAsks (parsedLevel parseFloat)) (\<lambda>asks'.
           andThen (getProp book ''ts'') (\<lambda>ts.
           andThen (getProp book ''instId'') (\<lambda>instId.
             Inr (Some \<lparr>bids = bids', asks = asks', timestamp = JNum (parseInt ts),
                        symbol = instId, venue = OKX\<rparr>)))))))))"
| "parseOrderbookData_try parseFloat parseInt Bybit data =
     andThen (getProp data ''data'') (\<lambda>d.
       if \<not> truthy d then Inr None
       else
         andThen (getProp d ''b'') (\<lambda>rawBids.
         andThen (mapSlice rawBids (parsedLevel parseFloat)) (\<lambda>bids'.
         andThen (getProp d ''a'') (\<lambda>rawAsks.
         andThen (mapSlice rawAsks (parsedLevel parseFloat)) (\<lambda>asks'.
         andThen (getProp data ''ts'') (\<lambda>ts.
         andThen (getProp d ''s'') (\<lambda>s.
           Inr (Some \<lparr>bids = bids', asks = asks', timestamp = ts,
                      symbol = s, venue = Bybit\<rparr>))))))))"
| "parseOrderbookData_try parseFloat parseInt Deribit data =
     andThen (getProp data ''params'') (\<lambda>params.
       if \<not> truthy params then Inr None
       else andThen (getProp params ''data'') (\<lambda>book.
         if \<not> truthy book then Inr None
         else
           andThen (getProp book ''bids'') (\<lambda>rawBids.
           andThen (mapSlice rawBids plainLevel) (\<lambda>bids'.
           andThen (getProp book ''asks'') (\<lambda>rawAsks.
           andThen (mapSlice rawAsks plainLevel) (\<lambda>asks'.
           andThen (getProp book ''timestamp'') (\<lambda>ts.
           andThen (getProp book ''instrument_name'') (\<lambda>name.
             Inr (Some \<lparr>bids = bids', asks = asks', timestamp = ts,
                        symbol = name, venue = Deribit\<rparr>)))))))))"

text \<open>The \<open>catch\<close> turns every exception into \<open>null\<close>.\<close>

definition parseOrderbookData ::
  "(json \<Rightarrow> jsnum) \<Rightarrow> (json \<Rightarrow> jsnum) \<Rightarrow> Venue \<Rightarrow> json \<Rightarrow> json OrderbookData option" where
  "parseOrderbookData parseFloat parseInt v data =
     (case parseOrderbookData_try parseFloat parseInt v data of
        Inl e \<Rightarrow> None
      | Inr result \<Rightarrow> result)"

subsection \<open>Where each venue's message carries its book\<close>

text \<open>
  The reads that \<open>parseOrderbookData\<close> performs to reach the two sides, named so that
  statements can speak of the raw \<open>bids\<close> and \<open>asks\<close> of a message: the payload object
  (\<open>data.data[0]\<close>, \<open>data.data\<close>, \<open>data.params.data\<close>), the property holding each
  side, and the callback applied to its entries.
\<close>

fun bookPayload :: "Venue \<Rightarrow> json \<Rightarrow> exn + json" where
  "bookPayload OKX data = andThen (getProp data ''data'') getIndex0"
| "bookPayload Bybit data = getProp data ''data''"
| "bookPayload Deribit data = andThen (getProp data ''params'') (\<lambda>params. getProp params ''data'')"

fun bidsField :: "Venue \<Rightarrow> string" where
  "bidsField OKX = ''bids''"
| "bidsField Bybit = ''b''"
| "bidsField Deribit = ''bids''"

fun asksField :: "Venue \<Rightarrow> string" where
  "asksField OKX = ''asks''"
| "asksField Bybit = ''a''"
| "asksField Deribit = ''asks''"

definition rawSide :: "Venue \<Rightarrow> string \<Rightarrow> json \<Rightarrow> exn + json" where
  "rawSide v field data = andThen (bookPayload v data) (\<lambda>book. getProp book field)"

fun levelOf :: "(json \<Rightarrow> jsnum) \<Rightarrow> Venue \<Rightarrow> json \<Rightarrow> exn + json OrderbookLevel" where
  "levelOf parseFloat OKX = parsedLevel parseFloat"
| "levelOf parseFloat Bybit = parsedLevel parseFloat"
| "levelOf parseFloat Deribit = plainLevel"

text \<open>
  A message lacks its \<open>asks\<close> when the payload object has no such property, or when
  there is no payload object to read it from.
\<close>

definition asksMissing :: "Venue \<Rightarrow> json \<Rightarrow> bool" where
  "asksMissing v data =
     (case rawSide v (asksField v) data of
        Inl e \<Rightarrow> True
      | Inr x \<Rightarrow> x = JUndefined)"

subsection \<open>The sort invariant of the data model\<close>

text \<open>The comparison \<open>a <= b\<close> on numbers: false as soon as one side is \<open>NaN\<close>.\<close>

fun le_js :: "jsnum \<Rightarrow> jsnum \<Rightarrow> bool" where
  "le_js NaN b = False"
| "le_js a NaN = False"
| "le_js NInf b = True"
| "le_js a PInf = True"
| "le_js PInf b = False"
| "le_js a NInf = False"
| "le_js (Fin x) (Fin y) = (x \<le> y)"

text \<open>A price of the data model is a number; any other value fails the comparison.\<close>

fun priceLe :: "json \<Rightarrow> json \<Rightarrow> bool" where
  "priceLe (JNum a) (JNum b) = le_js a b"
| "priceLe x y = False"

text \<open>\<open>bids[i].price >= bids[i+1].price\<close> for all valid \<open>i\<close>.\<close>

fun bidsDescending :: "json OrderbookLevel list \<Rightarrow> bool" where
  "bidsDescending (l # m # rest) = (priceLe (price m) (price l) \<and> bidsDescending (m # rest))"
| "bidsDescending levels = True"

text \<open>\<open>asks[i].price <= asks[i+1].price\<close> for all valid \<open>i\<close>.\<close>

fun asksAscending :: "json OrderbookLevel list \<Rightarrow> bool" where
  "asksAscending (l # m # rest) = (priceLe (price l) (price m) \<and> asksAscending (m # rest))"
| "asksAscending levels = True"

definition sortInvariant :: "json OrderbookData \<Rightarrow> bool" where
  "sortInvariant ob = (bidsDescending (bids ob) \<and> asksAscending (asks ob))"

section \<open>Connection manager (useOrderbookData, connect)\<close>

datatype ReadyState = CONNECTING | OPEN | CLOSING | CLOSED

text \<open>
  The state of the hook: the three \<open>useState\<close> cells and the two refs. \<open>wsRef\<close> is the
  \<open>readyState\<close> of the socket that \<open>wsRef.current\<close> holds, \<open>None\<close> for \<open>null\<close>.
  \<open>reconnectTimeoutRef\<close> is the timer that \<open>reconnectTimeoutRef.current\<close> holds, given
  by the delay in milliseconds it was scheduled with; the callback of every such timer
  is \<open>connect()\<close>.
\<close>

record HookState =
  orderbookData :: "json OrderbookData option"
  isConnected :: bool
  error :: "string option"
  wsRef :: "ReadyState option"
  reconnectTimeoutRef :: "nat option"

fun venueName :: "Venue \<Rightarrow> string" where
  "venueName OKX = ''OKX''"
| "venueName Bybit = ''Bybit''"
| "venueName Deribit = ''Deribit''"

fun getWebSocketUrl :: "Venue \<Rightarrow> string" where
  "getWebSocketUrl OKX = ''wss://ws.okx.com:8443/ws/v5/public''"
| "getWebSocketUrl Bybit = ''wss://stream.bybit.com/v5/public/linear''"
| "getWebSocketUrl Deribit = ''wss://www.deribit.com/ws/api/v2''"

text \<open>
  \<open>ws.onmessage\<close>. \<open>jsonParse\<close> stands for \<open>JSON.parse\<close>, which throws on text that is
  not JSON; the handler catches that and does nothing. A snapshot object is always
  truthy, so \<open>if (parsedData)\<close> tests for \<open>null\<close>.
\<close>

definition onmessage ::
  "(string \<Rightarrow> exn + json) \<Rightarrow> (json \<Rightarrow> jsnum) \<Rightarrow> (json \<Rightarrow> jsnum) \<Rightarrow> Venue \<Rightarrow> string
     \<Rightarrow> HookState \<Rightarrow> HookState" where
  "onmessage jsonParse parseFloat parseInt v eventData st =
     (case jsonParse eventData of
        Inl e \<Rightarrow> st
      | Inr data \<Rightarrow>
          (case parseOrderbookData parseFloat parseInt v data of
             None \<Rightarrow> st
           | Some parsedData \<Rightarrow> st\<lparr>orderbookData := Some parsedData\<rparr>))"

text \<open>\<open>ws.onerror\<close>\<close>

definition onerror :: "Venue \<Rightarrow> HookState \<Rightarrow> HookState" where
  "onerror v st =
     st\<lparr>error := Some (''WebSocket connection error for '' @ venueName v),
        isConnected := False\<rparr>"

text \<open>\<open>ws.onclose\<close>: \<open>setTimeout(() => { connect() }, 5000)\<close>\<close>

definition onclose :: "HookState \<Rightarrow> HookState" where
  "onclose st = st\<lparr>isConnected := False, reconnectTimeoutRef := Some 5000\<rparr>"

text \<open>
  \<open>connect\<close>, up to the installation of the handlers. \<open>newWebSocket\<close> stands for the
  \<open>WebSocket\<close> constructor: it throws (\<open>Inl\<close>, with the text of the error) or returns
  a socket, whose \<open>readyState\<close> is then \<open>CONNECTING\<close>. Closing an open socket leaves it
  \<open>CLOSING\<close>.
\<close>

definition connect :: "(string \<Rightarrow> string + unit) \<Rightarrow> Venue \<Rightarrow> HookState \<Rightarrow> HookState" where
  "connect newWebSocket v st =
     (let st1 = (if wsRef st = Some OPEN then st\<lparr>wsRef := Some CLOSING\<rparr> else st);
          wsUrl = getWebSocketUrl v
      in if wsUrl = [] then
           st1\<lparr>error := Some (''WebSocket URL not available for '' @ venueName v)\<rparr>
         else
           (case newWebSocket wsUrl of
              Inr ws \<Rightarrow> st1\<lparr>wsRef := Some CONNECTING\<rparr>
            | Inl err \<Rightarrow>
                st1\<lparr>error := Some (''Failed to connect to '' @ venueName v @ '': '' @ err),
                    isConnected := False\<rparr>))"

text \<open>
  A transport failure as the WebSocket interface reports it: the \<open>error\<close> event, then
  the \<open>close\<close> event.
\<close>

definition transportError :: "Venue \<Rightarrow> HookState \<Rightarrow> HookState" where
  "transportError v st = onclose (onerror v st)"

text \<open>One failure followed by the reconnect that the timer starts.\<close>

definition failThenReconnect :: "(string \<Rightarrow> string + unit) \<Rightarrow> Venue \<Rightarrow> HookState \<Rightarrow> HookState" where
  "failThenReconnect newWebSocket v st = connect newWebSocket v (transportError v st)"

section \<open>Example inputs\<close>

definition exampleParseFloat :: "string \<Rightarrow> real" where
  "exampleParseFloat s =
     (if s = ''1'' then 1 else if s = ''2'' then 2 else if s = ''5'' then 5 else 0)"


definition emptyAsksBook :: "real OrderbookData" where
  "emptyAsksBook =
     \<lparr>bids = [\<lparr>price = 99, quantity = 4, total = None\<rparr>],
      asks = [],
      timestamp = JNum (Fin 1700000000000), symbol = JStr ''BTC-USDT'', venue = OKX\<rparr>"

definition zeroDepthBook :: "real OrderbookData" where
  "zeroDepthBook =
     \<lparr>bids = [],
      asks = [\<lparr>price = 100, quantity = 0, total = None\<rparr>],
      timestamp = JNum (Fin 1700000000000), symbol = JStr ''BTC-USDT'', venue = OKX\<rparr>"

definition buyForm :: "string \<Rightarrow> FormState" where
  "buyForm q =
     \<lparr>orderType = Market, side = Buy, FormState.price = [], FormState.quantity = q,
      timing = Immediate\<rparr>"

definition deribitMessage :: "(string \<times> json) list \<Rightarrow> json" where
  "deribitMessage sides =
     JObj [(''params'', JObj [(''data'', JObj
       (sides @ [(''timestamp'', JNum (Fin 1700000000000)),
                 (''instrument_name'', JStr ''BTC-PERPETUAL'')]))])]"

definition unsortedMessage :: json where
  "unsortedMessage =
     deribitMessage
       [(''bids'', JArr [JArr [JNum (Fin 100), JNum (Fin 1)], JArr [JNum (Fin 101), JNum (Fin 2)]]),
        (''asks'', JArr [JArr [JNum (Fin 103), JNum (Fin 1)], JArr [JNum (Fin 102), JNum (Fin 2)]])]"

definition deepMessage :: json where
  "deepMessage =
     deribitMessage
       [(''bids'', JArr (replicate 20 (JArr [JNum (Fin 100), JNum (Fin 1)]))),
        (''asks'', JArr (replicate 20 (JArr [JNum (Fin 101), JNum (Fin 1)])))]"

definition noAsksMessage :: json where
  "noAsksMessage =
     deribitMessage [(''bids'', JArr [JArr [JNum (Fin 100), JNum (Fin 1)]])]"

definition storedSnapshot :: "json OrderbookData" where
  "storedSnapshot =
     \<lparr>bids = [\<lparr>price = JNum (Fin 99), quantity = JNum (Fin 4), total = None\<rparr>],
      asks = [\<lparr>price = JNum (Fin 100), quantity = JNum (Fin 1), total = None\<rparr>],
      timestamp = JNum (Fin 1700000000000), symbol = JStr ''BTC-PERPETUAL'', venue = Deribit\<rparr>"

definition openState :: HookState where
  "openState =
     \<lparr>orderbookData = Some storedSnapshot, isConnected = True, error = None,
      wsRef = Some OPEN, reconnectTimeoutRef = None\<rparr>"





section \<open>Properties of the simulator\<close>

text \<open>
  C2. The limit price plays no part in the simulation: for every snapshot and every
  state of the form, the metrics of a limit order with any limit price are those of a
  market order of the same side and quantity. The walk has no price cutoff.
\<close>

theorem limit_price_ignored:
  "calculateMarketImpact parseFloat book
     (form\<lparr>orderType := Limit, FormState.price := limitPrice\<rparr>)
   = calculateMarketImpact parseFloat book
     (form\<lparr>orderType := Market, FormState.price := anyPrice\<rparr>)"
  by (cases book) (simp_all add: calculateMarketImpact_def)

text \<open>
  C4. Empty side safety: with no asks and a buy order of positive quantity, no division
  has a zero divisor, the best price is 0, and slippage, market impact and estimated fill
  are all 0.
\<close>

theorem empty_asks_buy:
  assumes "asks ob = []" and "side form = Buy"
    and "FormState.quantity form \<noteq> []"
    and "0 < parseFloat (FormState.quantity form)"
  shows "0 \<notin> set (divisorsUsed parseFloat ob form)
         \<and> bestPriceOf (opposingLevels (side form) ob) = 0
         \<and> slippage (calculateMarketImpact parseFloat (Some ob) form) = Fin 0
         \<and> marketImpact (calculateMarketImpact parseFloat (Some ob) form) = Fin 0
         \<and> estimatedFill (calculateMarketImpact parseFloat (Some ob) form) = Fin 0"
  using assms
  by (simp add: calculateMarketImpact_def divisorsUsed_def opposingLevels_def initialVars_def
      Let_def)

theorem empty_asks_buy_witness:
  "asks emptyAsksBook = [] \<and> exampleParseFloat (FormState.quantity (buyForm ''5'')) = 5
   \<and> divisorsUsed exampleParseFloat emptyAsksBook (buyForm ''5'') = [5]
   \<and> bestPriceOf (opposingLevels (side (buyForm ''5'')) emptyAsksBook) = 0
   \<and> slippage (calculateMarketImpact exampleParseFloat (Some emptyAsksBook) (buyForm ''5'')) = Fin 0
   \<and> marketImpact (calculateMarketImpact exampleParseFloat (Some emptyAsksBook) (buyForm ''5'')) = Fin 0
   \<and> estimatedFill (calculateMarketImpact exampleParseFloat (Some emptyAsksBook) (buyForm ''5'')) = Fin 0"
  using empty_asks_buy [of emptyAsksBook "buyForm ''5''" exampleParseFloat]
  by (simp add: buyForm_def emptyAsksBook_def exampleParseFloat_def divisorsUsed_def
      opposingLevels_def initialVars_def Let_def)

text \<open>
  C5. The market impact is guarded by \<open>levels.length > 0\<close>, not by the sum of the
  quantities. On an opposing side that is non-empty but holds no quantity (one ask of
  quantity 0, a buy order of quantity 1) the code divides 0 by 0 and the market impact
  is \<open>NaN\<close>, where the specified value is 0.
\<close>

theorem zero_depth_market_impact:
  "sumQuantity (opposingLevels (side (buyForm ''1'')) zeroDepthBook) = 0
   \<and> 0 \<in> set (divisorsUsed exampleParseFloat zeroDepthBook (buyForm ''1''))
   \<and> marketImpact (calculateMarketImpact exampleParseFloat (Some zeroDepthBook) (buyForm ''1''))
       = NaN"
  by (simp add: calculateMarketImpact_def divisorsUsed_def buyForm_def zeroDepthBook_def
      exampleParseFloat_def opposingLevels_def initialVars_def sumQuantity_def Let_def)



section \<open>Properties of the walk in binary64 arithmetic\<close>
































section \<open>Properties of the normalizer and of the connection manager\<close>

lemma andThen_Inr: "andThen m f = Inr y \<longleftrightarrow> (\<exists>x. m = Inr x \<and> f x = Inr y)"
  by (cases m) (simp_all add: andThen_def)

lemma mapThrowing_Inr: "mapThrowing f xs = Inr ys \<Longrightarrow> map Inr ys = map f xs"
  by (induction xs arbitrary: ys) (auto split: sum.splits)

lemma arrayMap_Inr:
  "arrayMap x f = Inr ys \<Longrightarrow> \<exists>xs. x = JArr xs \<and> map Inr ys = map f xs"
  by (cases x) (simp_all add: mapThrowing_Inr)

lemma mapSlice_Inr:
  assumes "mapSlice x f = Inr ys"
  shows "\<exists>xs. x = JArr xs \<and> map Inr ys = take 15 (map f xs)"
proof -
  from assms obtain zs where zs: "arrayMap x f = Inr zs" and ys: "ys = take 15 zs"
    by (auto simp: mapSlice_def andThen_Inr)
  from arrayMap_Inr [OF zs] obtain xs where "x = JArr xs" and "map Inr zs = map f xs"
    by blast
  then show ?thesis using ys by (simp add: take_map [symmetric])
qed

lemma parse_try_sides:
  assumes "parseOrderbookData_try pf pint v data = Inr (Some ob)"
  shows "\<exists>rawBids rawAsks.
           rawSide v (bidsField v) data = Inr rawBids
         \<and> rawSide v (asksField v) data = Inr rawAsks
         \<and> mapSlice rawBids (levelOf pf v) = Inr (bids ob)
         \<and> mapSlice rawAsks (levelOf pf v) = Inr (asks ob)"
proof (cases v)
  case OKX
  with assms show ?thesis
    by (auto simp: andThen_Inr rawSide_def split: if_splits)
next
  case Bybit
  with assms show ?thesis
    by (auto simp: andThen_Inr rawSide_def split: if_splits)
next
  case Deribit
  with assms show ?thesis
    by (auto simp: andThen_Inr rawSide_def split: if_splits)
qed

lemma parse_sides:
  assumes "parseOrderbookData pf pint v data = Some ob"
  shows "\<exists>bs as.
           rawSide v (bidsField v) data = Inr (JArr bs)
         \<and> rawSide v (asksField v) data = Inr (JArr as)
         \<and> map Inr (bids ob) = take 15 (map (levelOf pf v) bs)
         \<and> map Inr (asks ob) = take 15 (map (levelOf pf v) as)"
proof -
  from assms have "parseOrderbookData_try pf pint v data = Inr (Some ob)"
    by (simp add: parseOrderbookData_def split: sum.splits)
  from parse_try_sides [OF this] obtain rawBids rawAsks where
    r: "rawSide v (bidsField v) data = Inr rawBids" "rawSide v (asksField v) data = Inr rawAsks"
    and m: "mapSlice rawBids (levelOf pf v) = Inr (bids ob)"
           "mapSlice rawAsks (levelOf pf v) = Inr (asks ob)"
    by blast
  from mapSlice_Inr [OF m(1)] mapSlice_Inr [OF m(2)] r show ?thesis by auto
qed

text \<open>
  C1 (as amended). The normalizer does not sort. Whenever a message parses to a snapshot,
  the raw \<open>bids\<close> and \<open>asks\<close> of the message are arrays, and each side of the snapshot is
  the first 15 entries of the raw side, converted entry by entry and kept in the order
  of the message.
\<close>

theorem levels_keep_raw_order:
  assumes "parseOrderbookData parseFloat parseInt v data = Some ob"
  shows "\<exists>bs as.
           rawSide v (bidsField v) data = Inr (JArr bs)
         \<and> rawSide v (asksField v) data = Inr (JArr as)
         \<and> map Inr (bids ob) = take 15 (map (levelOf parseFloat v) bs)
         \<and> map Inr (asks ob) = take 15 (map (levelOf parseFloat v) as)"
  using assms by (rule parse_sides)

text \<open>
  C6. Depth bound: a snapshot that the normalizer returns has at most 15 bids and at most
  15 asks, however many levels the message held.
\<close>

theorem depth_bound:
  assumes "parseOrderbookData parseFloat parseInt v data = Some ob"
  shows "length (bids ob) \<le> 15 \<and> length (asks ob) \<le> 15"
proof -
  from parse_sides [OF assms] obtain bs as where
    b: "map Inr (bids ob) = take 15 (map (levelOf parseFloat v) bs)" and
    a: "map Inr (asks ob) = take 15 (map (levelOf parseFloat v) as)"
    by blast
  have "length (map Inr (bids ob) :: (exn + json OrderbookLevel) list) \<le> 15"
    unfolding b by simp
  moreover have "length (map Inr (asks ob) :: (exn + json OrderbookLevel) list) \<le> 15"
    unfolding a by simp
  ultimately show ?thesis by simp
qed

text \<open>
  C8. Malformed message tolerance: a message without \<open>asks\<close> parses to \<open>null\<close>, and the
  message handler leaves the whole state of the hook as it was: the stored snapshot is
  kept and no error is set.
\<close>

theorem missing_asks_ignored:
  assumes "asksMissing v data" and "jsonParse eventData = Inr data"
  shows "parseOrderbookData parseFloat parseInt v data = None
         \<and> onmessage jsonParse parseFloat parseInt v eventData st = st"
proof -
  have none: "parseOrderbookData parseFloat parseInt v data = None"
  proof (cases "parseOrderbookData parseFloat parseInt v data")
    case None
    then show ?thesis .
  next
    case (Some ob)
    from parse_sides [OF Some] obtain as where
      "rawSide v (asksField v) data = Inr (JArr as)" by blast
    with assms(1) show ?thesis by (simp add: asksMissing_def)
  qed
  then show ?thesis using assms(2) by (simp add: onmessage_def)
qed

text \<open>
  C1 (as stated) fails: a message whose bids ascend and whose asks descend parses to a
  snapshot, and that snapshot does not satisfy the sort invariant.
\<close>

theorem unsorted_counterexample:
  "map_option sortInvariant
     (parseOrderbookData (\<lambda>x. NaN) (\<lambda>x. NaN) Deribit unsortedMessage) = Some False"
  by (simp add: parseOrderbookData_def unsortedMessage_def deribitMessage_def andThen_def mapSlice_def
      plainLevel_def sortInvariant_def)

lemma deep_parses:
  "parseOrderbookData (\<lambda>x. NaN) (\<lambda>x. NaN) Deribit deepMessage
   = Some (the (parseOrderbookData (\<lambda>x. NaN) (\<lambda>x. NaN) Deribit deepMessage))"
  by (simp add: parseOrderbookData_def deepMessage_def deribitMessage_def andThen_def mapSlice_def
      plainLevel_def eval_nat_numeral)

theorem depth_bound_witness:
  "parseOrderbookData (\<lambda>x. NaN) (\<lambda>x. NaN) Deribit deepMessage \<noteq> None
   \<and> length (bids (the (parseOrderbookData (\<lambda>x. NaN) (\<lambda>x. NaN) Deribit deepMessage))) \<le> 15
   \<and> length (asks (the (parseOrderbookData (\<lambda>x. NaN) (\<lambda>x. NaN) Deribit deepMessage))) \<le> 15"
proof -
  have "parseOrderbookData (\<lambda>x. NaN) (\<lambda>x. NaN) Deribit deepMessage \<noteq> None"
    by (metis deep_parses option.distinct(1))
  with depth_bound [OF deep_parses] show ?thesis by simp
qed

text \<open>
  C9. Reconnect policy: in every state the close handler schedules \<open>connect()\<close> with a
  delay of 5000 milliseconds; so does a transport error, through the close event that
  follows it, and so does the failure after any number of earlier failures and
  reconnects. When the timer runs and the constructor returns a socket, the connection
  is \<open>CONNECTING\<close> again. No counter or growing delay exists in the state.
\<close>

theorem reconnect_policy:
  "reconnectTimeoutRef (onclose st) = Some 5000
   \<and> reconnectTimeoutRef (transportError v st) = Some 5000
   \<and> reconnectTimeoutRef (transportError v ((failThenReconnect newWebSocket v ^^ n) st)) = Some 5000
   \<and> (newWebSocket (getWebSocketUrl v) = Inr () \<longrightarrow>
        wsRef (connect newWebSocket v (transportError v st)) = Some CONNECTING)"
  by (cases v) (simp_all add: onclose_def transportError_def connect_def Let_def)


lemma unsorted_parses:
  "parseOrderbookData (\<lambda>x. NaN) (\<lambda>x. NaN) Deribit unsortedMessage
   = Some (the (parseOrderbookData (\<lambda>x. NaN) (\<lambda>x. NaN) Deribit unsortedMessage))"
  by (simp add: parseOrderbookData_def unsortedMessage_def deribitMessage_def andThen_def
      mapSlice_def plainLevel_def)

theorem levels_keep_raw_order_witness:
  "map price (bids (the (parseOrderbookData (\<lambda>x. NaN) (\<lambda>x. NaN) Deribit unsortedMessage)))
     = [JNum (Fin 100), JNum (Fin 101)]
   \<and> map price (asks (the (parseOrderbookData (\<lambda>x. NaN) (\<lambda>x. NaN) Deribit unsortedMessage)))
     = [JNum (Fin 103), JNum (Fin 102)]"
proof -
  let ?ob = "the (parseOrderbookData (\<lambda>x. NaN) (\<lambda>x. NaN) Deribit unsortedMessage)"
  from levels_keep_raw_order [OF unsorted_parses] obtain bs as where
    rb: "rawSide Deribit (bidsField Deribit) unsortedMessage = Inr (JArr bs)" and
    ra: "rawSide Deribit (asksField Deribit) unsortedMessage = Inr (JArr as)" and
    b: "map Inr (bids ?ob) = take 15 (map (levelOf (\<lambda>x. NaN) Deribit) bs)" and
    a: "map Inr (asks ?ob) = take 15 (map (levelOf (\<lambda>x. NaN) Deribit) as)"
    by blast
  from rb have bs: "bs = [JArr [JNum (Fin 100), JNum (Fin 1)], JArr [JNum (Fin 101), JNum (Fin 2)]]"
    by (simp add: rawSide_def unsortedMessage_def deribitMessage_def andThen_def)
  from ra have as: "as = [JArr [JNum (Fin 103), JNum (Fin 1)], JArr [JNum (Fin 102), JNum (Fin 2)]]"
    by (simp add: rawSide_def unsortedMessage_def deribitMessage_def andThen_def)
  have "map Inr (bids ?ob)
          = ([Inr \<lparr>price = JNum (Fin 100), quantity = JNum (Fin 1), total = None\<rparr>,
              Inr \<lparr>price = JNum (Fin 101), quantity = JNum (Fin 2), total = None\<rparr>]
             :: (exn + json OrderbookLevel) list)"
    unfolding b bs by (simp add: plainLevel_def andThen_def)
  then have "bids ?ob = [\<lparr>price = JNum (Fin 100), quantity = JNum (Fin 1), total = None\<rparr>,
                         \<lparr>price = JNum (Fin 101), quantity = JNum (Fin 2), total = None\<rparr>]"
    by (auto simp: map_eq_Cons_conv)
  moreover have "map Inr (asks ?ob)
          = ([Inr \<lparr>price = JNum (Fin 103), quantity = JNum (Fin 1), total = None\<rparr>,
              Inr \<lparr>price = JNum (Fin 102), quantity = JNum (Fin 2), total = None\<rparr>]
             :: (exn + json OrderbookLevel) list)"
    unfolding a as by (simp add: plainLevel_def andThen_def)
  then have "asks ?ob = [\<lparr>price = JNum (Fin 103), quantity = JNum (Fin 1), total = None\<rparr>,
                         \<lparr>price = JNum (Fin 102), quantity = JNum (Fin 2), total = None\<rparr>]"
    by (auto simp: map_eq_Cons_conv)
  ultimately show ?thesis by simp
qed

theorem missing_asks_ignored_witness:
  "asksMissing Deribit noAsksMessage
   \<and> parseOrderbookData (\<lambda>x. NaN) (\<lambda>x. NaN) Deribit noAsksMessage = None
   \<and> onmessage (\<lambda>text. Inr noAsksMessage) (\<lambda>x. NaN) (\<lambda>x. NaN) Deribit ''{}'' openState
       = openState
   \<and> orderbookData openState = Some storedSnapshot"
proof -
  have m: "asksMissing Deribit noAsksMessage"
    by (simp add: asksMissing_def rawSide_def noAsksMessage_def deribitMessage_def andThen_def)
  have j: "(\<lambda>text. Inr noAsksMessage) ''{}'' = (Inr noAsksMessage :: exn + json)" by simp
  from missing_asks_ignored [OF m j, where parseFloat = "\<lambda>x. NaN" and parseInt = "\<lambda>x. NaN" and st = openState] m
  show ?thesis by (simp add: openState_def)
qed

theorem reconnect_policy_witness:
  "reconnectTimeoutRef openState = None
   \<and> reconnectTimeoutRef (onclose openState) = Some 5000
   \<and> reconnectTimeoutRef (transportError OKX openState) = Some 5000
   \<and> reconnectTimeoutRef
       (transportError OKX ((failThenReconnect (\<lambda>url. Inr ()) OKX ^^ 3) openState)) = Some 5000
   \<and> wsRef (connect (\<lambda>url. Inr ()) OKX (transportError OKX openState)) = Some CONNECTING"
  using reconnect_policy [where st = openState and v = OKX and newWebSocket = "\<lambda>url. Inr ()" and n = 3]
  by (simp add: openState_def)

end
